theory Spec2Isabelle
  imports Main
begin

section \<open>Values exchanged with the identity provider\<close>

text \<open>
  The model follows \<^verbatim>\<open>src/auth0-sso-login.js\<close>.  A JavaScript property that the code
  tests for truthiness or compares with \<^verbatim>\<open>undefined\<close> is a \<open>js_val\<close>: absent, null, or a
  string.  Numbers are mathematical integers (the code only multiplies by 1000, subtracts,
  divides by 3 under \<^verbatim>\<open>Math.floor\<close> and doubles, all exact on integers far below 2^53).
\<close>

datatype js_val = Undefined | Null | Str string

fun truthy :: "js_val \<Rightarrow> bool" where
  "truthy (Str s) = (s \<noteq> [])"
| "truthy Undefined = False"
| "truthy Null = False"

text \<open>
  The authorization result handed to the callback of \<^verbatim>\<open>webAuth.renewAuth\<close> and to the
  lock's \<^verbatim>\<open>authenticated\<close> event.  \<open>idTokenPayload\<close> is \<open>None\<close> when the object has no
  such property (reading \<^verbatim>\<open>.sub\<close> from it then throws), otherwise the value of its
  \<^verbatim>\<open>sub\<close> property.
\<close>

record auth_result =
  accessToken :: js_val
  idToken :: js_val
  idTokenPayload :: "js_val option"
  expiresIn :: int
  error :: js_val

text \<open>
  Values a promise is rejected with.  \<open>NoTokenAvailable v\<close> is the object built in
  \<^verbatim>\<open>renewAuth\<close>: \<^verbatim>\<open>{ error: 'no_token_available', errorDescription: 'Failed to get valid
  token.', authResultError: v }\<close>.  \<open>External name v\<close> is an error value handed in by a
  collaborator (provider, lock widget, management API, hook); \<open>v\<close> is what reading its
  \<^verbatim>\<open>authResultError\<close> property gives (\<open>Undefined\<close> for a value without that property).
\<close>

datatype js_error = External string js_val | NoTokenAvailable js_val

fun authResultError :: "js_error \<Rightarrow> js_val" where
  "authResultError (External name v) = v"
| "authResultError (NoTokenAvailable v) = v"

text \<open>The three states of a promise once everything the environment will do has happened.\<close>

datatype 'a promise = Resolved 'a | Rejected js_error | Pending

text \<open>
  A Node-style callback \<^verbatim>\<open>(error, value) => ...\<close> as the environment drives it: never
  called, or called with an error argument (\<open>None\<close> when falsy) and a value.
\<close>

datatype 'a callback = NoCallback | Callback "js_error option" 'a

record login_info =
  li_idToken :: js_val
  li_sub :: js_val

type_synonym profile = string

section \<open>Expiry policy\<close>

text \<open>
  \<^verbatim>\<open>getRemainingMillisToTokenEpxiry\<close> reads \<^verbatim>\<open>Date.now()\<close> twice: \<open>now1\<close> is the reading
  added to the lifetime, \<open>now2\<close> the reading subtracted again.  \<^verbatim>\<open>Math.floor(x / 3)\<close> on
  integers is \<open>x div 3\<close>, which rounds towards minus infinity in HOL as well.
\<close>

definition getRemainingMillisToTokenEpxiry :: "auth_result \<Rightarrow> int \<Rightarrow> int \<Rightarrow> int" where
  "getRemainingMillisToTokenEpxiry authResult now1 now2 =
     (let tokenExpiresAt = (expiresIn authResult * 1000) + now1
      in ((tokenExpiresAt - now2) div 3) * 2)"

text \<open>
  The expiry policy as the specification words it, for a token issued at \<open>issuedAt\<close> with a
  lifetime of \<open>lifetimeSeconds\<close>: \<open>floor((expiresAt - now) / 3) * 2\<close> with
  \<open>expiresAt = issuedAt + lifetimeSeconds * 1000\<close>.
\<close>

definition spec_remainingValidityMillis :: "int \<Rightarrow> int \<Rightarrow> int \<Rightarrow> int" where
  "spec_remainingValidityMillis issuedAt lifetimeSeconds now =
     (let expiresAt = issuedAt + lifetimeSeconds * 1000
      in ((expiresAt - now) div 3) * 2)"

section \<open>Configuration, window and instance state\<close>

text \<open>
  A hook is a function of the caller.  The promise a hook returns is part of the
  configuration: a function from the hook's argument to the way that promise settles.
  The \<^verbatim>\<open>log\<close> and \<^verbatim>\<open>logout\<close> hooks are only called, their result is never used, so
  a flag says whether they are configured.  Hooks do not call back into the instance.
\<close>

record hooks =
  hook_log :: bool
  hook_tokenRefreshed :: "(auth_result \<Rightarrow> unit promise) option"
  hook_profileRefreshed :: "(profile \<Rightarrow> unit promise) option"
  hook_removeLogin :: "unit promise option"
  hook_logout :: bool

record config =
  domain :: string
  clientId :: string
  audience :: string
  loginRedirectUri :: string
  logoutRedirectUri :: string
  hooks :: "hooks option"

text \<open>The callback given to \<^verbatim>\<open>windowInteraction.setTimeout\<close>:
  \<^verbatim>\<open>() => this.ensureLoggedIn({ enableLockWidget: b })\<close>.\<close>

datatype timer_callback = EnsureLoggedIn bool

datatype message =
    FailedToUpdate nat js_error
  | FallingBack
  | ErrorMessage js_error

text \<open>What the instance does to its collaborators, in the order it does it.\<close>

datatype event =
    ClearTimeout nat
  | SetTimeout nat timer_callback int
  | UpdateWindow string
  | LogHook message
  | ConsoleLog message
  | WebAuthRenewAuth string string string string
  | RetryTimeout int
  | TokenRefreshedHook auth_result
  | ProfileRefreshedHook profile
  | RemoveLoginHook
  | LogoutHook
  | LockNew string string
  | LockShow
  | LockHide
  | LockGetUserInfo js_val
  | ManagementGetUser js_val js_val

text \<open>
  The fields \<open>authResult\<close> and \<open>tokenRefreshHandle\<close> of the instance, together with the part
  of the browser window it touches: the timeouts set through \<^verbatim>\<open>windowInteraction\<close> that
  have neither fired nor been cleared (id, callback, delay), the id the next
  \<^verbatim>\<open>window.setTimeout\<close> returns, \<^verbatim>\<open>window.location\<close>, the clock read by \<^verbatim>\<open>Date.now()\<close>,
  and the trace of events.  \<open>None\<close> is \<^verbatim>\<open>null\<close>.  Within one call of a method both
  readings of the clock in the expiry policy see the same value \<open>now w\<close>; the clock moves
  between calls.
\<close>

record world =
  authResult :: "auth_result option"
  tokenRefreshHandle :: "nat option"
  timers :: "(nat \<times> timer_callback \<times> int) list"
  nextTimeoutId :: nat
  location :: "string option"
  now :: int
  trace :: "event list"

definition emit :: "event \<Rightarrow> world \<Rightarrow> world" where
  "emit e w = w\<lparr>trace := trace w @ [e]\<rparr>"

subsection \<open>windowInteraction\<close>

definition updateWindow :: "string \<Rightarrow> world \<Rightarrow> world" where
  "updateWindow url w = emit (UpdateWindow url) (w\<lparr>location := Some url\<rparr>)"

text \<open>\<^verbatim>\<open>window.setTimeout\<close> returns a fresh id and keeps the timeout pending.\<close>

definition setTimeout :: "timer_callback \<Rightarrow> int \<Rightarrow> world \<Rightarrow> nat \<times> world" where
  "setTimeout func delay w =
     (let timeoutId = nextTimeoutId w
      in (timeoutId,
          emit (SetTimeout timeoutId func delay)
            (w\<lparr>timers := timers w @ [(timeoutId, func, delay)],
               nextTimeoutId := Suc timeoutId\<rparr>)))"

definition clearTimeout :: "nat \<Rightarrow> world \<Rightarrow> world" where
  "clearTimeout timeoutId w =
     emit (ClearTimeout timeoutId)
       (w\<lparr>timers := filter (\<lambda>t. fst t \<noteq> timeoutId) (timers w)\<rparr>)"

subsection \<open>The constructor and the small methods\<close>

text \<open>
  \<^verbatim>\<open>if (this.tokenRefreshHandle)\<close>: \<^verbatim>\<open>null\<close> and the number 0 are falsy.
\<close>

definition handle_truthy :: "nat option \<Rightarrow> bool" where
  "handle_truthy h = (case h of None \<Rightarrow> False | Some n \<Rightarrow> n \<noteq> 0)"

text \<open>
  A new instance in a window whose timeout ids start at \<open>Suc k\<close> (the ids of
  \<^verbatim>\<open>window.setTimeout\<close> are positive), at clock reading \<open>t\<close>.
\<close>

definition constructor :: "nat \<Rightarrow> int \<Rightarrow> world" where
  "constructor k t =
     \<lparr>authResult = None, tokenRefreshHandle = None, timers = [], nextTimeoutId = Suc k,
      location = None, now = t, trace = []\<rparr>"

definition log_hook_set :: "config \<Rightarrow> bool" where
  "log_hook_set cfg = (case hooks cfg of None \<Rightarrow> False | Some h \<Rightarrow> hook_log h)"

text \<open>\<^verbatim>\<open>log\<close> hands the message to the \<^verbatim>\<open>log\<close> hook, or to \<^verbatim>\<open>console.log\<close> without one.\<close>

definition log_event :: "config \<Rightarrow> message \<Rightarrow> event" where
  "log_event cfg m = (if log_hook_set cfg then LogHook m else ConsoleLog m)"

definition log :: "config \<Rightarrow> message \<Rightarrow> world \<Rightarrow> world" where
  "log cfg m w = emit (log_event cfg m) w"

definition getLatestAuthResult :: "world \<Rightarrow> auth_result option" where
  "getLatestAuthResult w = authResult w"

definition getDetailedProfile ::
  "config \<Rightarrow> js_val \<Rightarrow> js_val \<Rightarrow> profile callback \<Rightarrow> world \<Rightarrow> profile promise \<times> world" where
  "getDetailedProfile cfg idTok sub getUser w =
     (let w1 = emit (ManagementGetUser idTok sub) w
      in case getUser of
           NoCallback \<Rightarrow> (Pending, w1)
         | Callback (Some err) p \<Rightarrow> (Rejected err, w1)
         | Callback None p \<Rightarrow> (Resolved p, w1))"

definition profileRefreshed :: "config \<Rightarrow> profile \<Rightarrow> world \<Rightarrow> unit promise \<times> world" where
  "profileRefreshed cfg p w =
     (case hooks cfg of
        None \<Rightarrow> (Resolved (), w)
      | Some h \<Rightarrow>
          (case hook_profileRefreshed h of
             None \<Rightarrow> (Resolved (), w)
           | Some f \<Rightarrow> (f p, emit (ProfileRefreshedHook p) w)))"

definition tokenRefreshed :: "config \<Rightarrow> auth_result \<Rightarrow> world \<Rightarrow> unit promise \<times> world" where
  "tokenRefreshed cfg a w =
     (let w1 = w\<lparr>authResult := Some a\<rparr>;
          w2 = (if handle_truthy (tokenRefreshHandle w1)
                then clearTimeout (the (tokenRefreshHandle w1)) w1 else w1);
          (h, w3) = setTimeout (EnsureLoggedIn True)
                      (getRemainingMillisToTokenEpxiry a (now w2) (now w2)) w2;
          w4 = w3\<lparr>tokenRefreshHandle := Some h\<rparr>
      in case hooks cfg of
           None \<Rightarrow> (Resolved (), w4)
         | Some hk \<Rightarrow>
             (case hook_tokenRefreshed hk of
                None \<Rightarrow> (Resolved (), w4)
              | Some f \<Rightarrow> (f a, emit (TokenRefreshedHook a) w4)))"

text \<open>The guarded block shared by \<^verbatim>\<open>removeLogin\<close> and \<^verbatim>\<open>logout\<close>.\<close>

definition clear_login :: "world \<Rightarrow> world" where
  "clear_login w =
     (if handle_truthy (tokenRefreshHandle w)
      then (clearTimeout (the (tokenRefreshHandle w)) w)\<lparr>authResult := None\<rparr>
      else w)"

definition removeLogin :: "config \<Rightarrow> world \<Rightarrow> unit promise \<times> world" where
  "removeLogin cfg w =
     (let w1 = clear_login w
      in case hooks cfg of
           None \<Rightarrow> (Resolved (), w1)
         | Some h \<Rightarrow>
             (case hook_removeLogin h of
                None \<Rightarrow> (Resolved (), w1)
              | Some p \<Rightarrow> (p, emit RemoveLoginHook w1)))"

subsection \<open>logout\<close>

text \<open>
  The built-in \<^verbatim>\<open>encodeURIComponent\<close> of the language, on the UTF-8 bytes of a well-formed
  string: letters, digits and the marks \<^verbatim>\<open>- _ . ! ~ * ' ( )\<close> stay, every other byte
  becomes \<^verbatim>\<open>%XX\<close> in upper-case hexadecimal.
\<close>

definition hexDigit :: "nat \<Rightarrow> char" where
  "hexDigit n = ''0123456789ABCDEF'' ! (n mod 16)"

definition uriUnescaped :: "char \<Rightarrow> bool" where
  "uriUnescaped c =
     (let n = (of_char c :: nat)
      in (48 \<le> n \<and> n \<le> 57) \<or> (65 \<le> n \<and> n \<le> 90) \<or> (97 \<le> n \<and> n \<le> 122)
         \<or> c \<in> set ''-_.!~*()'' \<or> n = 39)"

definition encodeURIComponent :: "string \<Rightarrow> string" where
  "encodeURIComponent s =
     concat (map (\<lambda>c. if uriUnescaped c then [c]
                       else [CHR ''%'', hexDigit ((of_char c :: nat) div 16),
                             hexDigit ((of_char c :: nat) mod 16)]) s)"

text \<open>
  \<^verbatim>\<open>this.config\<close> is always an object (\<^verbatim>\<open>config || {}\<close> in the constructor), so the
  branch guarded by \<^verbatim>\<open>if (this.config)\<close> is always taken.
\<close>

definition logout_hook_set :: "config \<Rightarrow> bool" where
  "logout_hook_set cfg = (case hooks cfg of None \<Rightarrow> False | Some h \<Rightarrow> hook_logout h)"

definition logout :: "config \<Rightarrow> world \<Rightarrow> world" where
  "logout cfg w =
     (let w1 = clear_login w;
          w2 = (if logout_hook_set cfg then emit LogoutHook w1 else w1);
          redirectUri = encodeURIComponent (logoutRedirectUri cfg)
      in updateWindow
           (''https://'' @ domain cfg @ ''/v2/logout?returnTo='' @ redirectUri
              @ ''&client_id='' @ clientId cfg) w2)"

section \<open>Silent renewal with retries\<close>

text \<open>
  The call \<^verbatim>\<open>webAuth.renewAuth(renewOptions, ...)\<close> as it appears in the trace, with the
  domain and client id of the \<^verbatim>\<open>WebAuth\<close> object and the redirect URI and audience of
  the options (the other two options are constants).
\<close>

definition renew_event :: "config \<Rightarrow> event" where
  "renew_event cfg =
     WebAuthRenewAuth (domain cfg) (clientId cfg) (loginRedirectUri cfg) (audience cfg)"

text \<open>
  The callback given to \<^verbatim>\<open>webAuth.renewAuth\<close>, run with the provider's answer
  \<open>(err, authResult)\<close>; the result is how the promise built around the call settles.
  \<^item> A truthy \<open>err\<close> is logged and rejects.
  \<^item> A result with a truthy access token and a truthy id token goes to \<open>tokenRefreshed\<close>;
    the promise resolves only in the \<^verbatim>\<open>then\<close> of the promise that method returns, so it stays
    pending when the hook's promise rejects or never settles, and when reading
    \<^verbatim>\<open>authResult.idTokenPayload.sub\<close> throws.
  \<^item> Any other result object rejects with the \<open>no_token_available\<close> object, which carries
    \<^verbatim>\<open>authResult.error\<close>.  Without a result object that read throws inside the callback
    and the promise stays pending.
\<close>

definition renewAuth_callback ::
  "config \<Rightarrow> nat \<Rightarrow> js_error option \<Rightarrow> auth_result option \<Rightarrow> world
     \<Rightarrow> login_info promise \<times> world" where
  "renewAuth_callback cfg retries err res w =
     (case err of
        Some e \<Rightarrow> (Rejected e, log cfg (FailedToUpdate retries e) w)
      | None \<Rightarrow>
          (case res of
             None \<Rightarrow> (Pending, w)
           | Some a \<Rightarrow>
               if truthy (accessToken a) \<and> truthy (idToken a)
               then (case tokenRefreshed cfg a w of
                       (Resolved u, w1) \<Rightarrow>
                         (case idTokenPayload a of
                            None \<Rightarrow> (Pending, w1)
                          | Some sub \<Rightarrow> (Resolved \<lparr>li_idToken = idToken a, li_sub = sub\<rparr>, w1))
                     | (Rejected e, w1) \<Rightarrow> (Pending, w1)
                     | (Pending, w1) \<Rightarrow> (Pending, w1))
               else (Rejected (NoTokenAvailable (error a)), w)))"

text \<open>
  The handler of the \<^verbatim>\<open>.catch\<close> at the end of \<^verbatim>\<open>renewAuth\<close>: either the attempt is
  repeated with the next attempt number once a timeout of the given delay has passed, or
  the error is thrown again.  Attempt numbers are natural numbers: the method starts at
  the default 0 and calls itself with \<^verbatim>\<open>retries + 1\<close>.
\<close>

datatype retry_decision = Retry nat int | Throw js_error

definition renewAuth_catch :: "nat \<Rightarrow> js_error \<Rightarrow> retry_decision" where
  "renewAuth_catch retries err =
     (if retries < 4 \<and> authResultError err = Undefined
      then Retry (retries + 1) 1000
      else Throw err)"

text \<open>
  The retry policy as the specification words it: an error is transient when it did not
  originate as the explicit \<open>no_token_available\<close> rejection, which is always permanent; a
  retry is granted, with a delay of 1000 ms, while the attempt number is below 4 and the
  error is transient.
\<close>

fun spec_transient :: "js_error \<Rightarrow> bool" where
  "spec_transient (NoTokenAvailable v) = False"
| "spec_transient (External name v) = True"

definition spec_shouldRetry :: "nat \<Rightarrow> js_error \<Rightarrow> int option" where
  "spec_shouldRetry attemptNumber e =
     (if attemptNumber < 4 \<and> spec_transient e then Some 1000 else None)"

text \<open>
  \<^verbatim>\<open>renewAuth(retries)\<close>.  The list holds the provider's answers to the successive calls of
  \<^verbatim>\<open>webAuth.renewAuth\<close>; when it is used up the provider does not answer the next call.
\<close>

fun renewAuth ::
  "config \<Rightarrow> (auth_result option) callback list \<Rightarrow> nat \<Rightarrow> world \<Rightarrow> login_info promise \<times> world"
  where
  "renewAuth cfg [] retries w = (Pending, emit (renew_event cfg) w)"
| "renewAuth cfg (NoCallback # rs) retries w = (Pending, emit (renew_event cfg) w)"
| "renewAuth cfg (Callback err res # rs) retries w =
     (case renewAuth_callback cfg retries err res (emit (renew_event cfg) w) of
        (Rejected e, w1) \<Rightarrow>
          (case renewAuth_catch retries e of
             Retry n delay \<Rightarrow> renewAuth cfg rs n (emit (RetryTimeout delay) w1)
           | Throw e' \<Rightarrow> (Rejected e', w1))
      | (Resolved li, w1) \<Rightarrow> (Resolved li, w1)
      | (Pending, w1) \<Rightarrow> (Pending, w1))"

section \<open>ensureLoggedIn\<close>

text \<open>\<^verbatim>\<open>p.then(f)\<close> and \<^verbatim>\<open>p.catch(f)\<close> on a promise together with the world it left.\<close>

fun then_promise ::
  "'a promise \<times> world \<Rightarrow> ('a \<Rightarrow> world \<Rightarrow> 'b promise \<times> world) \<Rightarrow> 'b promise \<times> world" where
  "then_promise (Resolved v, w) f = f v w"
| "then_promise (Rejected e, w) f = (Rejected e, w)"
| "then_promise (Pending, w) f = (Pending, w)"

fun catch_promise ::
  "'a promise \<times> world \<Rightarrow> (js_error \<Rightarrow> world \<Rightarrow> 'a promise \<times> world) \<Rightarrow> 'a promise \<times> world" where
  "catch_promise (Resolved v, w) f = (Resolved v, w)"
| "catch_promise (Rejected e, w) f = f e w"
| "catch_promise (Pending, w) f = (Pending, w)"

text \<open>
  What the lock widget does after \<^verbatim>\<open>lock.show()\<close>, as the two events the code listens to.
  \<open>Authenticated a rs ui\<close> carries the lock's authorization result together with the
  provider's answers \<open>rs\<close> to the silent renewal started by the handler and the answer \<open>ui\<close>
  of \<^verbatim>\<open>lock.getUserInfo\<close> (its value: \<open>None\<close> for no profile object, otherwise the
  profile's \<^verbatim>\<open>sub\<close>).  An empty list is a widget that fires neither event again, for
  instance because the user closed it or walked away.
\<close>

datatype lock_event =
    Authenticated auth_result "(auth_result option) callback list" "(js_val option) callback"
  | AuthorizationError js_error

text \<open>
  The promise built in the fallback, followed up to the first event that settles it.
  The \<^verbatim>\<open>authenticated\<close> handler calls \<^verbatim>\<open>this.renewAuth().then(...)\<close> with no handler for a
  rejection: when that renewal does not resolve, nothing settles the promise and the
  widget's next event is awaited.
\<close>

fun lock_events :: "config \<Rightarrow> lock_event list \<Rightarrow> world \<Rightarrow> login_info promise \<times> world" where
  "lock_events cfg [] w = (Pending, w)"
| "lock_events cfg (AuthorizationError e # evs) w = (Rejected e, log cfg (ErrorMessage e) w)"
| "lock_events cfg (Authenticated a rs ui # evs) w =
     (case renewAuth cfg rs 0 w of
        (Resolved li, w1) \<Rightarrow>
          (case ui of
             NoCallback \<Rightarrow> lock_events cfg evs (emit (LockGetUserInfo (accessToken a)) w1)
           | Callback (Some e) p \<Rightarrow>
               (Rejected e,
                log cfg (ErrorMessage e)
                  (emit LockHide (emit (LockGetUserInfo (accessToken a)) w1)))
           | Callback None None \<Rightarrow>
               lock_events cfg evs (emit LockHide (emit (LockGetUserInfo (accessToken a)) w1))
           | Callback None (Some sub) \<Rightarrow>
               (Resolved \<lparr>li_idToken = idToken a, li_sub = sub\<rparr>,
                emit LockHide (emit (LockGetUserInfo (accessToken a)) w1)))
      | (Rejected e, w1) \<Rightarrow> lock_events cfg evs w1
      | (Pending, w1) \<Rightarrow> lock_events cfg evs w1)"

text \<open>
  What the environment does during one call of \<^verbatim>\<open>ensureLoggedIn\<close>: the provider's answers
  to the silent renewal, the lock widget's events, and the answer of the management API's
  \<^verbatim>\<open>getUser\<close>.
\<close>

record environment =
  renewals :: "(auth_result option) callback list"
  lock_script :: "lock_event list"
  getUser :: "profile callback"

text \<open>The handler of the \<^verbatim>\<open>.catch\<close> in \<^verbatim>\<open>ensureLoggedIn\<close>.  The options of the widget
  (\<^verbatim>\<open>auth0LockOptions\<close> merged over the defaults) only reach the widget and are left out.\<close>

definition ensureLoggedIn_catch ::
  "config \<Rightarrow> bool \<Rightarrow> lock_event list \<Rightarrow> js_error \<Rightarrow> world \<Rightarrow> login_info promise \<times> world" where
  "ensureLoggedIn_catch cfg enableLockWidget evs e w =
     (let w1 = snd (removeLogin cfg w)
      in if \<not> enableLockWidget then (Rejected e, w1)
         else lock_events cfg evs
                (emit LockShow
                   (emit (LockNew (clientId cfg) (domain cfg)) (log cfg FallingBack w1))))"

definition token_valid :: "world \<Rightarrow> bool" where
  "token_valid w =
     (case getLatestAuthResult w of
        None \<Rightarrow> False
      | Some latestAuthResult \<Rightarrow>
          getRemainingMillisToTokenEpxiry latestAuthResult (now w) (now w) > 0)"

definition ensureLoggedIn ::
  "config \<Rightarrow> bool \<Rightarrow> environment \<Rightarrow> world \<Rightarrow> unit promise \<times> world" where
  "ensureLoggedIn cfg enableLockWidget env w =
     (if token_valid w then (Resolved (), w)
      else then_promise
             (then_promise
                (catch_promise (renewAuth cfg (renewals env) 0 w)
                   (ensureLoggedIn_catch cfg enableLockWidget (lock_script env)))
                (\<lambda>loginInfo.
                   getDetailedProfile cfg (li_idToken loginInfo) (li_sub loginInfo) (getUser env)))
             (profileRefreshed cfg))"

section \<open>Reachable states\<close>

text \<open>A pending timeout fires: the window drops it and runs its callback.\<close>

definition fire :: "config \<Rightarrow> nat \<Rightarrow> environment \<Rightarrow> world \<Rightarrow> world" where
  "fire cfg timeoutId env w =
     (case find (\<lambda>t. fst t = timeoutId) (timers w) of
        None \<Rightarrow> w
      | Some (i, EnsureLoggedIn b, delay) \<Rightarrow>
          snd (ensureLoggedIn cfg b env
                 (w\<lparr>timers := filter (\<lambda>t. fst t \<noteq> timeoutId) (timers w)\<rparr>)))"

text \<open>
  The states of an instance: a new one, and whatever a method of the class, the passing of
  time, a firing timeout or a call of a collaborator (which only adds to the trace) makes of
  a reachable one, under any behaviour of the environment.  Between two suspension points
  \<^verbatim>\<open>renewAuth\<close> and \<^verbatim>\<open>ensureLoggedIn\<close> change the state only through \<open>tokenRefreshed\<close>,
  \<open>removeLogin\<close> and calls of collaborators, so the states that overlapping calls pass
  through are among these as well.
\<close>

inductive reachable :: "config \<Rightarrow> world \<Rightarrow> bool" for cfg :: config where
  r_constructor: "reachable cfg (constructor k t)"
| r_clock: "reachable cfg w \<Longrightarrow> reachable cfg (w\<lparr>now := t\<rparr>)"
| r_emit: "reachable cfg w \<Longrightarrow> reachable cfg (emit e w)"
| r_log: "reachable cfg w \<Longrightarrow> reachable cfg (log cfg m w)"
| r_getDetailedProfile:
    "reachable cfg w \<Longrightarrow> reachable cfg (snd (getDetailedProfile cfg idTok sub cb w))"
| r_profileRefreshed: "reachable cfg w \<Longrightarrow> reachable cfg (snd (profileRefreshed cfg p w))"
| r_tokenRefreshed: "reachable cfg w \<Longrightarrow> reachable cfg (snd (tokenRefreshed cfg a w))"
| r_removeLogin: "reachable cfg w \<Longrightarrow> reachable cfg (snd (removeLogin cfg w))"
| r_logout: "reachable cfg w \<Longrightarrow> reachable cfg (logout cfg w)"
| r_renewAuth: "reachable cfg w \<Longrightarrow> reachable cfg (snd (renewAuth cfg rs retries w))"
| r_ensureLoggedIn: "reachable cfg w \<Longrightarrow> reachable cfg (snd (ensureLoggedIn cfg b env w))"
| r_fire: "reachable cfg w \<Longrightarrow> reachable cfg (fire cfg timeoutId env w)"

text \<open>
  The invariant of the two fields and the window: timeout ids are positive, a token is
  stored only together with a truthy handle, and the only timeout that can be pending is
  the one the handle names.
\<close>

definition state_inv :: "world \<Rightarrow> bool" where
  "state_inv w =
     (0 < nextTimeoutId w
      \<and> (tokenRefreshHandle w = None \<or> handle_truthy (tokenRefreshHandle w))
      \<and> (authResult w = None \<or> handle_truthy (tokenRefreshHandle w))
      \<and> length (timers w) \<le> 1
      \<and> list_all (\<lambda>t. tokenRefreshHandle w = Some (fst t)) (timers w))"

section \<open>Example inputs\<close>

text \<open>A token with a lifetime of 90 seconds, a configuration without hooks, and the
  state of a new instance after that token has been installed.\<close>

definition example_token :: auth_result where
  "example_token =
     \<lparr>accessToken = Str ''at'', idToken = Str ''it'', idTokenPayload = Some (Str ''user1''),
      expiresIn = 90, error = Undefined\<rparr>"

definition example_config :: config where
  "example_config =
     \<lparr>domain = ''tenant.auth0.com'', clientId = ''abc123'', audience = ''api'',
      loginRedirectUri = ''https://app.example.com/login'',
      logoutRedirectUri = ''https://app.example.com/?a=b c'', hooks = None\<rparr>"

definition example_world :: world where
  "example_world = snd (tokenRefreshed example_config example_token (constructor 0 0))"

text \<open>Two answers of the provider that carry no tokens: one with an \<^verbatim>\<open>error\<close> property
  and one without.\<close>

definition example_denied :: auth_result where
  "example_denied =
     \<lparr>accessToken = Undefined, idToken = Undefined, idTokenPayload = None,
      expiresIn = 0, error = Str ''login_required''\<rparr>"

definition example_empty :: auth_result where
  "example_empty =
     \<lparr>accessToken = Undefined, idToken = Undefined, idTokenPayload = None,
      expiresIn = 0, error = Undefined\<rparr>"



section \<open>The invariant holds in every reachable state\<close>

lemma state_inv_emit [simp]: "state_inv (emit e w) = state_inv w"
  by (simp add: state_inv_def emit_def)

lemma state_inv_log [simp]: "state_inv (log cfg m w) = state_inv w"
  by (simp add: log_def)

lemma state_inv_now [simp]: "state_inv (w\<lparr>now := t\<rparr>) = state_inv w"
  by (simp add: state_inv_def)

lemma state_inv_constructor: "state_inv (constructor k t)"
  by (simp add: state_inv_def constructor_def)

lemma length_filter_le1: "length xs \<le> Suc 0 \<Longrightarrow> length (filter P xs) \<le> Suc 0"
  by (meson le_trans length_filter_le)

lemma state_inv_drop_timer:
  "state_inv w \<Longrightarrow> state_inv (w\<lparr>timers := filter P (timers w)\<rparr>)"
  by (auto simp: state_inv_def list_all_iff intro: length_filter_le1)

lemma state_inv_clearTimeout: "state_inv w \<Longrightarrow> state_inv (clearTimeout i w)"
  by (simp add: clearTimeout_def state_inv_drop_timer)

lemma timers_cleared:
  "state_inv w \<Longrightarrow> tokenRefreshHandle w = Some h \<Longrightarrow> filter (\<lambda>t. fst t \<noteq> h) (timers w) = []"
  by (auto simp: state_inv_def list_all_iff filter_empty_conv)

lemma timers_none:
  "state_inv w \<Longrightarrow> \<not> handle_truthy (tokenRefreshHandle w) \<Longrightarrow> timers w = []"
  by (cases "timers w") (auto simp: state_inv_def)

lemma state_inv_clear_login: "state_inv w \<Longrightarrow> state_inv (clear_login w)"
  by (auto simp: clear_login_def clearTimeout_def emit_def state_inv_def list_all_iff
      intro: length_filter_le1)

lemma state_inv_removeLogin: "state_inv w \<Longrightarrow> state_inv (snd (removeLogin cfg w))"
  by (simp add: removeLogin_def Let_def state_inv_clear_login split: option.splits)

lemma state_inv_logout: "state_inv w \<Longrightarrow> state_inv (logout cfg w)"
  using state_inv_clear_login [of w]
  by (simp add: logout_def Let_def updateWindow_def state_inv_def emit_def)

lemma tokenRefreshed_world:
  "state_inv w \<Longrightarrow>
   snd (tokenRefreshed cfg a w) =
     (w\<lparr>authResult := Some a, tokenRefreshHandle := Some (nextTimeoutId w),
        timers := [(nextTimeoutId w, EnsureLoggedIn True,
                    getRemainingMillisToTokenEpxiry a (now w) (now w))],
        nextTimeoutId := Suc (nextTimeoutId w),
        trace := trace w
          @ (if handle_truthy (tokenRefreshHandle w)
             then [ClearTimeout (the (tokenRefreshHandle w))] else [])
          @ [SetTimeout (nextTimeoutId w) (EnsureLoggedIn True)
               (getRemainingMillisToTokenEpxiry a (now w) (now w))]
          @ (case hooks cfg of None \<Rightarrow> []
             | Some hk \<Rightarrow> (case hook_tokenRefreshed hk of None \<Rightarrow> []
                           | Some f \<Rightarrow> [TokenRefreshedHook a]))\<rparr>)"
  apply (cases "handle_truthy (tokenRefreshHandle w)")
   apply (cases "tokenRefreshHandle w")
    apply (simp add: handle_truthy_def)
   apply (simp add: tokenRefreshed_def Let_def setTimeout_def clearTimeout_def emit_def timers_cleared split: option.splits)
  apply (simp add: tokenRefreshed_def Let_def setTimeout_def clearTimeout_def emit_def timers_none split: option.splits)
  done

lemma state_inv_tokenRefreshed: "state_inv w \<Longrightarrow> state_inv (snd (tokenRefreshed cfg a w))"
  by (simp add: tokenRefreshed_world) (simp add: state_inv_def handle_truthy_def)


lemma state_inv_tokenRefreshedD:
  "tokenRefreshed cfg a w = (p, w') \<Longrightarrow> state_inv w \<Longrightarrow> state_inv w'"
  using state_inv_tokenRefreshed [of w cfg a] by simp

lemma state_inv_renewAuth_callback:
  "state_inv w \<Longrightarrow> state_inv (snd (renewAuth_callback cfg retries err res w))"
  by (auto simp: renewAuth_callback_def dest: state_inv_tokenRefreshedD
      split: option.splits prod.splits promise.splits)

lemma state_inv_renewAuth: "state_inv w \<Longrightarrow> state_inv (snd (renewAuth cfg rs retries w))"
proof (induction cfg rs retries w rule: renewAuth.induct)
  case (1 cfg retries w)
  then show ?case by simp
next
  case (2 cfg rs retries w)
  then show ?case by simp
next
  case (3 cfg err res rs retries w)
  let ?w0 = "emit (renew_event cfg) w"
  obtain p w1 where cb: "renewAuth_callback cfg retries err res ?w0 = (p, w1)"
    by (cases "renewAuth_callback cfg retries err res ?w0")
  have inv1: "state_inv w1"
    using state_inv_renewAuth_callback [of ?w0 cfg retries err res] "3.prems" cb by simp
  show ?case
  proof (cases p)
    case (Rejected e)
    show ?thesis
    proof (cases "renewAuth_catch retries e")
      case (Retry n delay)
      have "state_inv (snd (renewAuth cfg rs n (emit (RetryTimeout delay) w1)))"
        using "3.IH" [OF cb [symmetric] Rejected Retry] inv1 by simp
      then show ?thesis using cb Rejected Retry by simp
    next
      case (Throw e')
      then show ?thesis using cb Rejected inv1 by simp
    qed
  qed (use cb inv1 in simp_all)
qed

lemma state_inv_lock_events: "state_inv w \<Longrightarrow> state_inv (snd (lock_events cfg evs w))"
proof (induction cfg evs w rule: lock_events.induct)
  case (1 cfg w)
  then show ?case by simp
next
  case (2 cfg e evs w)
  then show ?case by simp
next
  case (3 cfg a rs ui evs w)
  obtain p w1 where r: "renewAuth cfg rs 0 w = (p, w1)"
    by (cases "renewAuth cfg rs 0 w")
  have inv1: "state_inv w1"
    using state_inv_renewAuth [of w cfg rs 0] "3.prems" r by simp
  show ?case
    using r inv1 "3.IH"
    by (auto split: promise.splits callback.splits option.splits)
qed

lemma state_inv_ensureLoggedIn_catch:
  "state_inv w \<Longrightarrow> state_inv (snd (ensureLoggedIn_catch cfg b evs e w))"
  by (simp add: ensureLoggedIn_catch_def Let_def state_inv_removeLogin state_inv_lock_events)

lemma state_inv_getDetailedProfile:
  "state_inv w \<Longrightarrow> state_inv (snd (getDetailedProfile cfg i s cb w))"
  by (simp add: getDetailedProfile_def Let_def split: callback.splits option.splits)

lemma state_inv_profileRefreshed:
  "state_inv w \<Longrightarrow> state_inv (snd (profileRefreshed cfg p w))"
  by (simp add: profileRefreshed_def split: option.splits)

lemma state_inv_then_promise:
  "state_inv (snd pw) \<Longrightarrow> (\<And>v w. state_inv w \<Longrightarrow> state_inv (snd (f v w)))
   \<Longrightarrow> state_inv (snd (then_promise pw f))"
  by (cases pw; cases "fst pw") simp_all

lemma state_inv_catch_promise:
  "state_inv (snd pw) \<Longrightarrow> (\<And>e w. state_inv w \<Longrightarrow> state_inv (snd (f e w)))
   \<Longrightarrow> state_inv (snd (catch_promise pw f))"
  by (cases pw; cases "fst pw") simp_all

lemma state_inv_ensureLoggedIn:
  "state_inv w \<Longrightarrow> state_inv (snd (ensureLoggedIn cfg b env w))"
  by (simp add: ensureLoggedIn_def state_inv_then_promise state_inv_catch_promise
      state_inv_renewAuth state_inv_ensureLoggedIn_catch state_inv_getDetailedProfile
      state_inv_profileRefreshed)

lemma state_inv_fire: "state_inv w \<Longrightarrow> state_inv (fire cfg i env w)"
  by (simp add: fire_def state_inv_ensureLoggedIn state_inv_drop_timer
      split: option.splits prod.splits timer_callback.splits)

lemma reachable_state_inv: "reachable cfg w \<Longrightarrow> state_inv w"
  by (induction rule: reachable.induct)
    (simp_all add: state_inv_constructor state_inv_getDetailedProfile
      state_inv_profileRefreshed state_inv_tokenRefreshed state_inv_removeLogin
      state_inv_logout state_inv_renewAuth state_inv_ensureLoggedIn state_inv_fire)

lemma state_inv_trace [simp]: "state_inv (w\<lparr>trace := tr\<rparr>) = state_inv w"
  by (simp add: state_inv_def)

section \<open>What the guarded clearing and the retry step do\<close>

lemma clear_login_world:
  assumes "state_inv w"
  shows "clear_login w =
     w\<lparr>authResult := None, timers := [],
       trace := trace w @ (if handle_truthy (tokenRefreshHandle w)
                           then [ClearTimeout (the (tokenRefreshHandle w))] else [])\<rparr>"
proof (cases "handle_truthy (tokenRefreshHandle w)")
  case True
  then obtain h where h: "tokenRefreshHandle w = Some h"
    by (auto simp: handle_truthy_def split: option.splits)
  show ?thesis
    using True h timers_cleared [OF assms h]
    by (simp add: clear_login_def clearTimeout_def emit_def)
next
  case False
  have "authResult w = None" using assms False by (auto simp: state_inv_def)
  moreover have "timers w = []" using assms False by (rule timers_none)
  ultimately have "w\<lparr>authResult := None, timers := [], trace := trace w\<rparr> = w"
    by (cases w) simp
  then show ?thesis using False by (simp add: clear_login_def)
qed


lemma retries_lt_4: "(retries::nat) < 4 \<longleftrightarrow> retries \<in> {0, 1, 2, 3}"
  by (simp add: numeral_eq_Suc less_Suc_eq)

lemma renewAuth_rejected_step:
  assumes "renewAuth_callback cfg retries err res (emit (renew_event cfg) w) = (Rejected e, w1)"
  shows "renewAuth cfg (Callback err res # rs) retries w =
           (if retries < 4 \<and> authResultError e = Undefined
            then renewAuth cfg rs (retries + 1) (emit (RetryTimeout 1000) w1)
            else (Rejected e, w1))"
  using assms by (simp add: renewAuth_catch_def)

lemma renewAuth_callback_err:
  "renewAuth_callback cfg retries (Some e) res w =
     (Rejected e, log cfg (FailedToUpdate retries e) w)"
  by (simp add: renewAuth_callback_def)

lemma renewAuth_callback_no_token:
  "\<not> (truthy (accessToken a) \<and> truthy (idToken a)) \<Longrightarrow>
   renewAuth_callback cfg retries None (Some a) w = (Rejected (NoTokenAvailable (error a)), w)"
  by (auto simp: renewAuth_callback_def)


section \<open>Expiry policy: what the code computes\<close>

lemma remaining_eq: "getRemainingMillisToTokenEpxiry a t t = (expiresIn a * 1000 div 3) * 2"
  by (simp add: getRemainingMillisToTokenEpxiry_def)

lemma remaining_pos_iff:
  "0 < getRemainingMillisToTokenEpxiry a now1 now2 \<longleftrightarrow> 3 \<le> expiresIn a * 1000 + now1 - now2"
  by (simp add: getRemainingMillisToTokenEpxiry_def zero_less_mult_iff pos_imp_zdiv_pos_iff)

lemma token_valid_iff:
  "token_valid w \<longleftrightarrow>
     (\<exists>a. authResult w = Some a \<and> 0 < getRemainingMillisToTokenEpxiry a (now w) (now w))"
  by (simp add: token_valid_def getLatestAuthResult_def split: option.splits)

lemma example_world_eq:
  "example_world =
     \<lparr>authResult = Some example_token, tokenRefreshHandle = Some 1,
      timers = [(1, EnsureLoggedIn True, 60000)], nextTimeoutId = 2, location = None, now = 0,
      trace = [SetTimeout 1 (EnsureLoggedIn True) 60000]\<rparr>"
  by (simp add: example_world_def tokenRefreshed_def constructor_def example_config_def
      handle_truthy_def setTimeout_def emit_def getRemainingMillisToTokenEpxiry_def
      example_token_def)

lemma example_world_reachable: "reachable example_config example_world"
  unfolding example_world_def by (rule r_tokenRefreshed [OF r_constructor])

text \<open>
  C1.  The claim: the expiry policy is positive strictly before two thirds of the token's
  lifetime have passed since it was issued and non-positive from then on; it equals
  \<open>floor((issuedAt + expiresIn * 1000 - now) / 3) * 2\<close>.  The code has no issue time: it adds
  the lifetime to the clock reading of the call itself.  For a token of 90 seconds issued at
  time 0, read when the whole lifetime has passed (clock 90000), the code answers 60000
  where the formula of the specification gives 0.
\<close>

theorem expiry_policy_ignores_issue_time:
  "getRemainingMillisToTokenEpxiry example_token 90000 90000 = 60000
   \<and> spec_remainingValidityMillis 0 (expiresIn example_token) 90000 = 0"
  by (simp add: getRemainingMillisToTokenEpxiry_def spec_remainingValidityMillis_def
      example_token_def)

text \<open>
  C2.  For a stored token with a positive lifetime the expiry policy is positive whatever the
  clock says: two thirds of the lifetime in milliseconds, rounded as the code rounds, when
  both clock readings agree, and positive as long as the second reading is less than 998 ms
  after the first.  So \<open>ensureLoggedIn\<close> resolves at once and changes nothing at any time
  \<open>t\<close>, and a firing renewal timeout leaves the trace and the token as they are.
\<close>

theorem stored_token_never_expires:
  assumes "authResult w = Some a" and "0 < expiresIn a"
  shows "(\<forall>now1 now2. now2 - now1 \<le> 997 \<longrightarrow> 0 < getRemainingMillisToTokenEpxiry a now1 now2)
     \<and> (\<forall>t. getRemainingMillisToTokenEpxiry a t t = (expiresIn a * 1000 div 3) * 2)
     \<and> (\<forall>t cfg b env. ensureLoggedIn cfg b env (w\<lparr>now := t\<rparr>) = (Resolved (), w\<lparr>now := t\<rparr>))
     \<and> (\<forall>t cfg i env. trace (fire cfg i env (w\<lparr>now := t\<rparr>)) = trace w
            \<and> authResult (fire cfg i env (w\<lparr>now := t\<rparr>)) = Some a)"
proof -
  have pos: "0 < getRemainingMillisToTokenEpxiry a now1 now2" if "now2 - now1 \<le> 997"
    for now1 now2
    using that assms(2) by (simp add: remaining_pos_iff)
  have valid: "token_valid (w\<lparr>now := t, timers := ts\<rparr>)" for t ts
    using assms(1) pos [of t t] by (simp add: token_valid_iff)
  have e: "ensureLoggedIn cfg b env (w\<lparr>now := t\<rparr>) = (Resolved (), w\<lparr>now := t\<rparr>)"
    for t cfg b env
    using assms(1) pos [of t t] by (simp add: ensureLoggedIn_def token_valid_iff)
  have f: "trace (fire cfg i env (w\<lparr>now := t\<rparr>)) = trace w
            \<and> authResult (fire cfg i env (w\<lparr>now := t\<rparr>)) = Some a" for t cfg i env
    using assms(1) valid
    by (simp add: fire_def ensureLoggedIn_def
        split: option.splits prod.splits timer_callback.splits)
  show ?thesis using pos e f by (simp add: remaining_eq)
qed

theorem stored_token_never_expires_witness:
  "authResult example_world = Some example_token \<and> 0 < expiresIn example_token
   \<and> getRemainingMillisToTokenEpxiry example_token 1000000 1000000 = 60000
   \<and> ensureLoggedIn example_config True \<lparr>renewals = [], lock_script = [], getUser = NoCallback\<rparr>
        (example_world\<lparr>now := 1000000\<rparr>) = (Resolved (), example_world\<lparr>now := 1000000\<rparr>)
   \<and> trace (fire example_config 1 \<lparr>renewals = [], lock_script = [], getUser = NoCallback\<rparr>
        (example_world\<lparr>now := 1000000\<rparr>)) = [SetTimeout 1 (EnsureLoggedIn True) 60000]"
proof -
  have h1: "authResult example_world = Some example_token" by (simp add: example_world_eq)
  have h2: "0 < expiresIn example_token" by (simp add: example_token_def)
  have tr: "trace example_world = [SetTimeout 1 (EnsureLoggedIn True) 60000]"
    by (simp add: example_world_eq)
  have v: "expiresIn example_token * 1000 div 3 * 2 = 60000" by (simp add: example_token_def)
  show ?thesis
    using stored_token_never_expires [OF h1 h2] h1 h2 tr v by simp
qed

text \<open>
  C9.  With a stored token whose remaining validity is positive, \<open>ensureLoggedIn\<close> resolves
  and returns the state it was given: token, handle, pending timeouts and trace are
  unchanged, so neither the provider, the widget, the profile fetch nor a hook was called.
\<close>

theorem valid_token_is_noop:
  assumes "authResult w = Some a"
    and "0 < getRemainingMillisToTokenEpxiry a (now w) (now w)"
  shows "ensureLoggedIn cfg enableLockWidget env w = (Resolved (), w)"
  using assms by (simp add: ensureLoggedIn_def token_valid_iff)

theorem valid_token_is_noop_witness:
  "authResult example_world = Some example_token
   \<and> 0 < getRemainingMillisToTokenEpxiry example_token (now example_world) (now example_world)
   \<and> ensureLoggedIn example_config False
        \<lparr>renewals = [], lock_script = [], getUser = NoCallback\<rparr> example_world
       = (Resolved (), example_world)"
proof -
  have h1: "authResult example_world = Some example_token" by (simp add: example_world_eq)
  have h2: "0 < getRemainingMillisToTokenEpxiry example_token (now example_world)
                  (now example_world)"
    by (simp add: remaining_eq example_token_def)
  show ?thesis using valid_token_is_noop [OF h1 h2] h1 h2 by simp
qed

section \<open>Retry policy\<close>

text \<open>
  C3, as the claim states it, fails: a \<open>no_token_available\<close> rejection built from a provider
  answer that has neither tokens nor an \<^verbatim>\<open>error\<close> property carries
  \<^verbatim>\<open>authResultError: undefined\<close>, which is what the retry test looks at.  At attempt 0 the
  provider is called a second time after the delay; here the second answer has tokens and
  the renewal resolves.
\<close>

theorem no_token_without_error_is_retried:
  "renewAuth_callback example_config 0 None (Some example_empty)
      (emit (renew_event example_config) (constructor 0 0))
     = (Rejected (NoTokenAvailable Undefined),
        emit (renew_event example_config) (constructor 0 0))
   \<and> fst (renewAuth example_config
            [Callback None (Some example_empty), Callback None (Some example_token)] 0
            (constructor 0 0))
       = Resolved \<lparr>li_idToken = Str ''it'', li_sub = Str ''user1''\<rparr>
   \<and> trace (snd (renewAuth example_config
            [Callback None (Some example_empty), Callback None (Some example_token)] 0
            (constructor 0 0)))
       = [renew_event example_config, RetryTimeout 1000, renew_event example_config,
          SetTimeout 1 (EnsureLoggedIn True) 60000]"
  by (simp add: renewAuth_callback_def example_empty_def renewAuth_catch_def example_token_def
      tokenRefreshed_def example_config_def constructor_def emit_def handle_truthy_def
      setTimeout_def getRemainingMillisToTokenEpxiry_def renew_event_def)

text \<open>
  C3, amended.  When the provider answers without an error argument and with a result that
  lacks a truthy access token or a truthy id token, then:
  if the result's \<^verbatim>\<open>error\<close> property is not \<^verbatim>\<open>undefined\<close>, \<open>renewAuth\<close> rejects with the
  \<open>no_token_available\<close> object at once, at every attempt number, and the provider has been
  called exactly once;
  if the property is \<^verbatim>\<open>undefined\<close> and the attempt number is below 4, the attempt is
  repeated after the delay like any other failure.
\<close>

theorem no_token_with_error_is_never_retried:
  assumes "\<not> (truthy (accessToken a) \<and> truthy (idToken a))"
  shows "(error a \<noteq> Undefined \<longrightarrow>
           renewAuth cfg (Callback None (Some a) # rs) retries w
             = (Rejected (NoTokenAvailable (error a)), emit (renew_event cfg) w))
     \<and> (error a = Undefined \<and> retries < 4 \<longrightarrow>
           renewAuth cfg (Callback None (Some a) # rs) retries w
             = renewAuth cfg rs (retries + 1)
                 (emit (RetryTimeout 1000) (emit (renew_event cfg) w)))"
  using renewAuth_rejected_step [OF renewAuth_callback_no_token [OF assms], where rs = rs]
  by simp

theorem no_token_with_error_is_never_retried_witness:
  "\<not> (truthy (accessToken example_denied) \<and> truthy (idToken example_denied))
   \<and> error example_denied \<noteq> Undefined
   \<and> renewAuth example_config
        [Callback None (Some example_denied), Callback None (Some example_token)] 0
        (constructor 0 0)
       = (Rejected (NoTokenAvailable (Str ''login_required'')),
          emit (renew_event example_config) (constructor 0 0))
   \<and> error example_empty = Undefined \<and> (3::nat) < 4
   \<and> renewAuth example_config [Callback None (Some example_empty)] 3 (constructor 0 0)
       = renewAuth example_config [] (3 + 1)
           (emit (RetryTimeout 1000) (emit (renew_event example_config) (constructor 0 0)))"
proof -
  have h1: "\<not> (truthy (accessToken example_denied) \<and> truthy (idToken example_denied))"
    by (simp add: example_denied_def)
  have h2: "\<not> (truthy (accessToken example_empty) \<and> truthy (idToken example_empty))"
    by (simp add: example_empty_def)
  have e1: "error example_denied = Str ''login_required''" by (simp add: example_denied_def)
  have e2: "error example_empty = Undefined" by (simp add: example_empty_def)
  show ?thesis
    using no_token_with_error_is_never_retried
            [OF h1, of example_config "[Callback None (Some example_token)]" 0 "constructor 0 0"]
      no_token_with_error_is_never_retried [OF h2, of example_config "[]" 3 "constructor 0 0"]
      h1 e1 e2
    by simp
qed

text \<open>
  C4, as the claim states it, fails.  Its permanent errors are the \<open>no_token_available\<close>
  rejections, and the policy worded that way denies a retry for every one of them.  The code
  looks at \<^verbatim>\<open>authResultError\<close> only: the rejection built from a provider answer with
  neither tokens nor an \<^verbatim>\<open>error\<close> property is granted a retry at attempt 0, and \<open>renewAuth\<close>
  calls the provider again after the timeout (the second call is left unanswered here).
\<close>

theorem permanent_rejection_is_granted_a_retry:
  "spec_transient (NoTokenAvailable Undefined) = False
   \<and> spec_shouldRetry 0 (NoTokenAvailable Undefined) = None
   \<and> renewAuth_catch 0 (NoTokenAvailable Undefined) = Retry 1 1000
   \<and> renewAuth example_config [Callback None (Some example_empty)] 0 (constructor 0 0)
       = (Pending,
          \<lparr>authResult = None, tokenRefreshHandle = None, timers = [], nextTimeoutId = 1,
           location = None, now = 0,
           trace = [renew_event example_config, RetryTimeout 1000,
                    renew_event example_config]\<rparr>)"
  by (simp add: spec_shouldRetry_def renewAuth_catch_def renewAuth_callback_def
      example_empty_def constructor_def emit_def)

text \<open>
  C4, amended.  The handler of the rejection in \<open>renewAuth\<close> grants a retry exactly at attempt
  numbers 0, 1, 2 and 3 for an error whose \<^verbatim>\<open>authResultError\<close> is \<^verbatim>\<open>undefined\<close>; the retry
  is the next attempt number after a timeout of 1000 ms, the same at every attempt.  In
  every other case, attempt 4 and any error with a defined \<^verbatim>\<open>authResultError\<close> included,
  the error is thrown again.  \<open>renewAuth\<close> acts on that decision whenever the callback of an
  attempt rejects.  For the two rejections the callback produces this means: an error
  argument \<open>e\<close> of the provider is logged and retried at attempts 0 to 3 when \<open>e\<close> has no
  \<^verbatim>\<open>authResultError\<close>; an answer without tokens is retried at attempts 0 to 3 when it has no
  \<^verbatim>\<open>error\<close> property, and rejects with the \<open>no_token_available\<close> object otherwise.
\<close>

theorem retry_policy:
  "renewAuth_catch retries e =
     (if retries \<in> {0, 1, 2, 3} \<and> authResultError e = Undefined
      then Retry (retries + 1) 1000 else Throw e)
   \<and> (renewAuth_callback cfg retries err res (emit (renew_event cfg) w) = (Rejected e, w1) \<longrightarrow>
        renewAuth cfg (Callback err res # rs) retries w =
          (if retries \<in> {0, 1, 2, 3} \<and> authResultError e = Undefined
           then renewAuth cfg rs (retries + 1) (emit (RetryTimeout 1000) w1)
           else (Rejected e, w1)))
   \<and> renewAuth cfg (Callback (Some e) res # rs) retries w =
        (if retries \<in> {0, 1, 2, 3} \<and> authResultError e = Undefined
         then renewAuth cfg rs (retries + 1)
                (emit (RetryTimeout 1000)
                   (log cfg (FailedToUpdate retries e) (emit (renew_event cfg) w)))
         else (Rejected e, log cfg (FailedToUpdate retries e) (emit (renew_event cfg) w)))
   \<and> (\<not> (truthy (accessToken a) \<and> truthy (idToken a)) \<longrightarrow>
        renewAuth cfg (Callback None (Some a) # rs) retries w =
          (if retries \<in> {0, 1, 2, 3} \<and> error a = Undefined
           then renewAuth cfg rs (retries + 1)
                  (emit (RetryTimeout 1000) (emit (renew_event cfg) w))
           else (Rejected (NoTokenAvailable (error a)), emit (renew_event cfg) w)))"
proof -
  have policy: "renewAuth_catch retries e =
     (if retries \<in> {0, 1, 2, 3} \<and> authResultError e = Undefined
      then Retry (retries + 1) 1000 else Throw e)"
    by (simp add: renewAuth_catch_def retries_lt_4)
  have step: "renewAuth_callback cfg retries err res (emit (renew_event cfg) w) = (Rejected e, w1)
      \<longrightarrow> renewAuth cfg (Callback err res # rs) retries w =
          (if retries \<in> {0, 1, 2, 3} \<and> authResultError e = Undefined
           then renewAuth cfg rs (retries + 1) (emit (RetryTimeout 1000) w1)
           else (Rejected e, w1))"
    using renewAuth_rejected_step [of cfg retries err res w e w1 rs]
    by (simp add: retries_lt_4)
  have by_error: "renewAuth cfg (Callback (Some e) res # rs) retries w =
        (if retries \<in> {0, 1, 2, 3} \<and> authResultError e = Undefined
         then renewAuth cfg rs (retries + 1)
                (emit (RetryTimeout 1000)
                   (log cfg (FailedToUpdate retries e) (emit (renew_event cfg) w)))
         else (Rejected e, log cfg (FailedToUpdate retries e) (emit (renew_event cfg) w)))"
    using renewAuth_rejected_step [OF renewAuth_callback_err, where rs = rs]
    by (simp add: retries_lt_4)
  have no_token: "renewAuth cfg (Callback None (Some a) # rs) retries w =
          (if retries \<in> {0, 1, 2, 3} \<and> error a = Undefined
           then renewAuth cfg rs (retries + 1)
                  (emit (RetryTimeout 1000) (emit (renew_event cfg) w))
           else (Rejected (NoTokenAvailable (error a)), emit (renew_event cfg) w))"
    if "\<not> (truthy (accessToken a) \<and> truthy (idToken a))"
    using renewAuth_rejected_step [OF renewAuth_callback_no_token [OF that], where rs = rs]
    by (simp add: retries_lt_4)
  show ?thesis using policy step by_error no_token by blast
qed

theorem retry_policy_witness:
  "renewAuth_catch 3 (External ''timeout'' Undefined) = Retry 4 1000
   \<and> renewAuth_catch 4 (External ''timeout'' Undefined) = Throw (External ''timeout'' Undefined)
   \<and> renewAuth_catch 0 (NoTokenAvailable (Str ''login_required''))
       = Throw (NoTokenAvailable (Str ''login_required''))
   \<and> renewAuth_callback example_config 4 (Some (External ''timeout'' Undefined)) None
        (emit (renew_event example_config) (constructor 0 0))
       = (Rejected (External ''timeout'' Undefined),
          log example_config (FailedToUpdate 4 (External ''timeout'' Undefined))
            (emit (renew_event example_config) (constructor 0 0)))
   \<and> renewAuth example_config [Callback (Some (External ''timeout'' Undefined)) None] 4
        (constructor 0 0)
       = (Rejected (External ''timeout'' Undefined),
          log example_config (FailedToUpdate 4 (External ''timeout'' Undefined))
            (emit (renew_event example_config) (constructor 0 0)))
   \<and> \<not> (truthy (accessToken example_denied) \<and> truthy (idToken example_denied))
   \<and> renewAuth example_config [Callback None (Some example_denied)] 2 (constructor 0 0)
       = (Rejected (NoTokenAvailable (Str ''login_required'')),
          emit (renew_event example_config) (constructor 0 0))"
proof -
  let ?e = "External ''timeout'' Undefined"
  let ?w1 = "log example_config (FailedToUpdate 4 ?e)
               (emit (renew_event example_config) (constructor 0 0))"
  have h: "renewAuth_callback example_config 4 (Some ?e) None
             (emit (renew_event example_config) (constructor 0 0)) = (Rejected ?e, ?w1)"
    by (rule renewAuth_callback_err)
  have d: "\<not> (truthy (accessToken example_denied) \<and> truthy (idToken example_denied))"
    "error example_denied = Str ''login_required''"
    by (simp_all add: example_denied_def)
  show ?thesis
    using retry_policy [of 3 ?e]
      retry_policy [of 4 ?e example_config "Some ?e" None "constructor 0 0" ?w1 "[]"]
      retry_policy [of 0 "NoTokenAvailable (Str ''login_required'')"]
      retry_policy [where retries = 2 and cfg = example_config and a = example_denied
                      and rs = "[]" and w = "constructor 0 0"]
      h d
    by simp
qed

section \<open>Timer and token\<close>

text \<open>
  C5.  In every reachable state at most one timeout is pending, and \<open>tokenRefreshed\<close> called
  there stores the new token, clears the timeout of the old handle when the handle is set,
  then sets one timeout whose delay is the expiry policy of the new token and whose callback
  is \<^verbatim>\<open>ensureLoggedIn({ enableLockWidget: true })\<close>, keeps its id as the handle, and last
  calls the token-refreshed hook when one is configured, returning the hook's promise.
  Afterwards exactly that one timeout is pending.
\<close>

theorem tokenRefreshed_replaces_timer:
  assumes "reachable cfg w"
  shows "length (timers w) \<le> 1
     \<and> fst (tokenRefreshed cfg a w) =
         (case hooks cfg of None \<Rightarrow> Resolved ()
          | Some hk \<Rightarrow> (case hook_tokenRefreshed hk of None \<Rightarrow> Resolved () | Some f \<Rightarrow> f a))
     \<and> snd (tokenRefreshed cfg a w) =
     (w\<lparr>authResult := Some a, tokenRefreshHandle := Some (nextTimeoutId w),
        timers := [(nextTimeoutId w, EnsureLoggedIn True,
                    getRemainingMillisToTokenEpxiry a (now w) (now w))],
        nextTimeoutId := Suc (nextTimeoutId w),
        trace := trace w
          @ (if handle_truthy (tokenRefreshHandle w)
             then [ClearTimeout (the (tokenRefreshHandle w))] else [])
          @ [SetTimeout (nextTimeoutId w) (EnsureLoggedIn True)
               (getRemainingMillisToTokenEpxiry a (now w) (now w))]
          @ (case hooks cfg of None \<Rightarrow> []
             | Some hk \<Rightarrow> (case hook_tokenRefreshed hk of None \<Rightarrow> []
                           | Some f \<Rightarrow> [TokenRefreshedHook a]))\<rparr>)"
proof -
  have inv: "state_inv w" using assms by (rule reachable_state_inv)
  have l: "length (timers w) \<le> 1" using inv by (simp add: state_inv_def)
  have f: "fst (tokenRefreshed cfg a w) =
         (case hooks cfg of None \<Rightarrow> Resolved ()
          | Some hk \<Rightarrow> (case hook_tokenRefreshed hk of None \<Rightarrow> Resolved () | Some f \<Rightarrow> f a))"
    by (simp add: tokenRefreshed_def Let_def split_beta split: option.splits)
  show ?thesis using l f tokenRefreshed_world [OF inv] by simp
qed

theorem tokenRefreshed_replaces_timer_witness:
  "reachable example_config example_world
   \<and> length (timers example_world) \<le> 1
   \<and> tokenRefreshed example_config (example_token\<lparr>expiresIn := 7200\<rparr>) example_world =
       (Resolved (),
        \<lparr>authResult = Some (example_token\<lparr>expiresIn := 7200\<rparr>), tokenRefreshHandle = Some 2,
         timers = [(2, EnsureLoggedIn True, 4800000)], nextTimeoutId = 3, location = None,
         now = 0,
         trace = [SetTimeout 1 (EnsureLoggedIn True) 60000, ClearTimeout 1,
                  SetTimeout 2 (EnsureLoggedIn True) 4800000]\<rparr>)"
proof -
  have h: "hooks example_config = None" by (simp add: example_config_def)
  have r: "getRemainingMillisToTokenEpxiry (example_token\<lparr>expiresIn := 7200\<rparr>) 0 0 = 4800000"
    by (simp add: remaining_eq)
  show ?thesis
    using tokenRefreshed_replaces_timer
            [OF example_world_reachable, of "example_token\<lparr>expiresIn := 7200\<rparr>"]
      example_world_reachable
    by (simp add: prod_eq_iff h r example_world_eq handle_truthy_def)
qed

text \<open>
  C10.  In every reachable state with a stored token the handle is set (not null, and
  truthy), so the guarded block of \<open>removeLogin\<close> and of \<open>logout\<close> runs: both leave no token
  behind, and both leave the handle field as it was.
\<close>

theorem token_implies_handle:
  assumes "reachable cfg w" and "authResult w \<noteq> None"
  shows "tokenRefreshHandle w \<noteq> None \<and> handle_truthy (tokenRefreshHandle w)
     \<and> authResult (snd (removeLogin cfg w)) = None
     \<and> tokenRefreshHandle (snd (removeLogin cfg w)) = tokenRefreshHandle w
     \<and> authResult (logout cfg w) = None
     \<and> tokenRefreshHandle (logout cfg w) = tokenRefreshHandle w"
proof -
  have inv: "state_inv w" using assms(1) by (rule reachable_state_inv)
  have t: "handle_truthy (tokenRefreshHandle w)"
    using inv assms(2) by (simp add: state_inv_def)
  then have n: "tokenRefreshHandle w \<noteq> None"
    by (auto simp: handle_truthy_def split: option.splits)
  have c: "authResult (clear_login w) = None
     \<and> tokenRefreshHandle (clear_login w) = tokenRefreshHandle w"
    using t by (simp add: clear_login_def clearTimeout_def emit_def)
  have r: "authResult (snd (removeLogin cfg w)) = None
     \<and> tokenRefreshHandle (snd (removeLogin cfg w)) = tokenRefreshHandle w"
    using c by (simp add: removeLogin_def Let_def emit_def split: option.splits)
  have l: "authResult (logout cfg w) = None
     \<and> tokenRefreshHandle (logout cfg w) = tokenRefreshHandle w"
    using c by (simp add: logout_def Let_def updateWindow_def emit_def)
  show ?thesis using t n r l by simp
qed

theorem token_implies_handle_witness:
  "reachable example_config example_world \<and> authResult example_world \<noteq> None
   \<and> tokenRefreshHandle example_world = Some 1
   \<and> authResult (snd (removeLogin example_config example_world)) = None
   \<and> tokenRefreshHandle (snd (removeLogin example_config example_world)) = Some 1
   \<and> authResult (logout example_config example_world) = None
   \<and> tokenRefreshHandle (logout example_config example_world) = Some 1"
proof -
  have h: "authResult example_world \<noteq> None" by (simp add: example_world_eq)
  have t: "tokenRefreshHandle example_world = Some 1" by (simp add: example_world_eq)
  show ?thesis
    using token_implies_handle [OF example_world_reachable h] example_world_reachable h t
    by simp
qed

text \<open>
  C7.  In every reachable state \<open>logout\<close> leaves no pending timeout and no token, calls the
  logout hook when one is configured, and sets the window's location to
  \<^verbatim>\<open>https://{domain}/v2/logout?returnTo={encodeURIComponent(logoutRedirectUri)}&client_id={clientId}\<close>;
  nothing else changes, and the trace shows the order: the timeout of the handle is cleared
  (when the handle is set), then the hook, then the navigation.
\<close>

theorem logout_clears_and_redirects:
  assumes "reachable cfg w"
  shows "logout cfg w =
     w\<lparr>authResult := None, timers := [],
       location := Some (''https://'' @ domain cfg @ ''/v2/logout?returnTo=''
                          @ encodeURIComponent (logoutRedirectUri cfg)
                          @ ''&client_id='' @ clientId cfg),
       trace := trace w
         @ (if handle_truthy (tokenRefreshHandle w)
            then [ClearTimeout (the (tokenRefreshHandle w))] else [])
         @ (if logout_hook_set cfg then [LogoutHook] else [])
         @ [UpdateWindow (''https://'' @ domain cfg @ ''/v2/logout?returnTo=''
                          @ encodeURIComponent (logoutRedirectUri cfg)
                          @ ''&client_id='' @ clientId cfg)]\<rparr>"
  using clear_login_world [OF reachable_state_inv [OF assms]]
  by (simp add: logout_def Let_def updateWindow_def emit_def)

theorem logout_clears_and_redirects_witness:
  "reachable example_config example_world
   \<and> logout example_config example_world =
      \<lparr>authResult = None, tokenRefreshHandle = Some 1, timers = [], nextTimeoutId = 2,
       location = Some ''https://tenant.auth0.com/v2/logout?returnTo=https%3A%2F%2Fapp.example.com%2F%3Fa%3Db%20c&client_id=abc123'',
       now = 0,
       trace = [SetTimeout 1 (EnsureLoggedIn True) 60000, ClearTimeout 1,
                UpdateWindow ''https://tenant.auth0.com/v2/logout?returnTo=https%3A%2F%2Fapp.example.com%2F%3Fa%3Db%20c&client_id=abc123'']\<rparr>"
proof -
  have enc: "encodeURIComponent (logoutRedirectUri example_config)
               = ''https%3A%2F%2Fapp.example.com%2F%3Fa%3Db%20c''"
    by (simp add: example_config_def encodeURIComponent_def uriUnescaped_def hexDigit_def)
  have cfg: "domain example_config = ''tenant.auth0.com''" "clientId example_config = ''abc123''"
    "\<not> logout_hook_set example_config"
    by (simp_all add: example_config_def logout_hook_set_def)
  show ?thesis
    using logout_clears_and_redirects [OF example_world_reachable] example_world_reachable
    by (simp add: enc cfg example_world_eq handle_truthy_def)
qed

section \<open>Fallback after a failed renewal\<close>




text \<open>
  C8.  The claim: every error on the interactive path makes the promise of \<open>ensureLoggedIn\<close>
  reject.  Here the silent renewal is refused (\<open>login_required\<close>), the widget is shown, the
  user authenticates, and the silent renewal started by the \<^verbatim>\<open>authenticated\<close> handler is
  refused again: that rejection has no handler, the widget fires nothing more, and the
  promise stays pending.  It also stays pending when the widget fires no event at all.
\<close>

theorem interactive_login_failure_stays_pending:
  "ensureLoggedIn example_config True
      \<lparr>renewals = [Callback None (Some example_denied)],
       lock_script = [Authenticated example_token [Callback None (Some example_denied)]
                        (Callback None (Some (Str ''user1'')))],
       getUser = Callback None ''profile''\<rparr> (constructor 0 0)
     = (Pending,
        \<lparr>authResult = None, tokenRefreshHandle = None, timers = [], nextTimeoutId = 1,
         location = None, now = 0,
         trace = [renew_event example_config, ConsoleLog FallingBack,
                  LockNew ''abc123'' ''tenant.auth0.com'', LockShow,
                  renew_event example_config]\<rparr>)
   \<and> fst (ensureLoggedIn example_config True
        \<lparr>renewals = [Callback None (Some example_denied)], lock_script = [],
         getUser = Callback None ''profile''\<rparr> (constructor 0 0)) = Pending"
  by (simp add: ensureLoggedIn_def token_valid_iff constructor_def example_denied_def
      renewAuth_callback_def renewAuth_catch_def log_def log_event_def log_hook_set_def
      example_config_def emit_def example_token_def tokenRefreshed_def handle_truthy_def
      setTimeout_def getRemainingMillisToTokenEpxiry_def getDetailedProfile_def
      profileRefreshed_def ensureLoggedIn_catch_def removeLogin_def clear_login_def
      renew_event_def)

end
